theory Spec2Isabelle
  imports Main "HOL-Library.AList" "HOL-Library.Sublist"
begin

section \<open>Objects of the cluster API\<close>

text \<open>
  The Kubernetes types are declared outside the repository; each record carries the fields
  the code under \<^verbatim>\<open>src/\<close> reads or writes. A Go \<^verbatim>\<open>map[string]string\<close> is an association
  list (a nil map is the empty list), an \<^verbatim>\<open>int32\<close> is read as its integer value (the code
  only compares such values), a pointer that may be nil is an \<open>option\<close>.
\<close>

type_synonym labels = "(string \<times> string) list"

record ObjectMeta =
  Name :: string
  Namespace :: string
  UID :: string
  SelfLink :: string
  ResourceVersion :: string
  Labels :: labels
  Annotations :: labels

record LabelSelector =
  MatchLabels :: labels

record JobSpec =
  Completions :: "int option"
  Selector :: "LabelSelector option"
  Template :: ObjectMeta

record JobStatus =
  Succeeded :: int
  Active :: int

record Job =
  Kind :: string
  APIVersion :: string
  JobMeta :: ObjectMeta
  Spec :: JobSpec
  Status_of :: JobStatus

record Pod =
  PodMeta :: ObjectMeta
  NodeName :: string

record ObjectReference =
  refKind :: string
  refUID :: string

record SerializedReference =
  Reference :: ObjectReference

record StatusCause =
  causeType :: string
  causeMessage :: string
  causeField :: string

record StatusDetails =
  detName :: string
  detGroup :: string
  detKind :: string
  detCauses :: "StatusCause list"

record unversioned_Status =
  Code :: int
  Reason :: string
  Message :: string
  Details :: "StatusDetails option"

record DeleteOptions =
  PropagationPolicy :: "string option"

record ListOptions =
  LabelSelector_of :: labels

text \<open>
  Modelled from the spec: the constants \<^verbatim>\<open>KindJob\<close>, \<^verbatim>\<open>BatchAPIVersion\<close>, \<^verbatim>\<open>ControllerUIDLabel\<close>
  and \<^verbatim>\<open>AnnotationCreatedBy\<close> of the repository are declared outside \<^verbatim>\<open>src/\<close>. The
  specification names them (the workload's well-known kind, its default version, the
  auto-generated label, the creation-provenance annotation) without their values, which are
  given here as Kubernetes has them. The other constants are those of the Kubernetes client
  and of \<^verbatim>\<open>net/http\<close>. The theorems stated for every input do not depend on the values.
\<close>

definition KindJob :: string where
  "KindJob = ''Job''"

definition BatchAPIVersion :: string where
  "BatchAPIVersion = ''batch/v1''"

definition ControllerUIDLabel :: string where
  "ControllerUIDLabel = ''controller-uid''"

definition AnnotationCreatedBy :: string where
  "AnnotationCreatedBy = ''kubernetes.io/created-by''"


definition StatusConflict :: int where
  "StatusConflict = 409"

definition StatusNotFound :: int where
  "StatusNotFound = 404"

definition StatusForbidden :: int where
  "StatusForbidden = 403"

definition StatusReasonAlreadyExists :: string where
  "StatusReasonAlreadyExists = ''AlreadyExists''"

section \<open>Formatted text and errors\<close>

text \<open>
  \<^verbatim>\<open>fmt.Sprintf(format, args...)\<close> is kept unevaluated, as the format with its arguments:
  how \<^verbatim>\<open>fmt\<close> renders a struct, an error or a duration is not part of the repository.
  \<open>VMeta m\<close> is \<^verbatim>\<open>formatMeta(m)\<close>, a function of the repository that is not under
  \<^verbatim>\<open>src/\<close>; its rendering of the object's identity is kept symbolic too.
\<close>

datatype fmtval =
    VStr string
  | VInt int
  | VDuration int
  | VStatusError unversioned_Status
  | VDetails StatusDetails
  | VMeta ObjectMeta
  | Sprintf string "fmtval list"

text \<open>
  A Go \<^verbatim>\<open>error\<close> value: a \<^verbatim>\<open>*errors.StatusError\<close> of the API client, one of the kinds of
  the \<^verbatim>\<open>trace\<close> package with its message, or any other error (identified by its text).
  A nil error is \<open>None\<close> of \<open>error option\<close>.
\<close>

datatype error =
    StatusError unversioned_Status
  | OtherError string
  | NotFound fmtval
  | AlreadyExists fmtval
  | AccessDenied fmtval
  | BadParameter fmtval
  | CompareFailed fmtval

text \<open>
  \<^verbatim>\<open>trace.Wrap\<close> attaches the call site to an error and leaves its kind and message as they
  are; the call site is not modelled. \<^verbatim>\<open>trace.IsNotFound\<close> tests the kind.
\<close>

definition Wrap :: "error option \<Rightarrow> error option" where
  "Wrap err = err"

fun IsNotFound :: "error option \<Rightarrow> bool" where
  "IsNotFound (Some (NotFound _)) = True"
| "IsNotFound _ = False"

text \<open>
  Modelled from the spec: \<^verbatim>\<open>formatMeta\<close> is not under \<^verbatim>\<open>src/\<close>. The specification (4.1) says
  of it that it gives the resource's formatted identity; the identity is kept as the
  metadata it is formatted from.
\<close>

definition formatMeta :: "ObjectMeta \<Rightarrow> fmtval" where
  "formatMeta m = VMeta m"

definition isEmptyDetails :: "StatusDetails option \<Rightarrow> bool" where
  "isEmptyDetails details =
     (case details of
        None \<Rightarrow> True
      | Some d \<Rightarrow>
          if detName d = '''' \<and> detGroup d = '''' \<and> detKind d = '''' \<and> length (detCauses d) = 0
          then True
          else False)"

definition ConvertErrorWithContext ::
  "error option \<Rightarrow> string \<Rightarrow> fmtval list \<Rightarrow> error option" where
  "ConvertErrorWithContext err format args =
     (case err of
        None \<Rightarrow> None
      | Some (StatusError status) \<Rightarrow>
          (let message = Sprintf ''%v'' [VStatusError status];
               message = (if \<not> isEmptyDetails (Details status)
                          then Sprintf ''%v, details: %v'' [message, VDetails (the (Details status))]
                          else message);
               message = (if format \<noteq> ''''
                          then Sprintf ''%v: %v'' [Sprintf format args, message]
                          else message)
           in if Code status = StatusConflict \<and> Reason status = StatusReasonAlreadyExists
              then Some (AlreadyExists message)
              else if Code status = StatusNotFound then Some (NotFound message)
              else if Code status = StatusForbidden then Some (AccessDenied message)
              else err)
      | Some _ \<Rightarrow> err)"

definition ConvertError :: "error option \<Rightarrow> error option" where
  "ConvertError err = ConvertErrorWithContext err '''' []"

fun is_StatusError :: "error \<Rightarrow> bool" where
  "is_StatusError (StatusError _) = True"
| "is_StatusError _ = False"

fun is_AlreadyExists :: "error option \<Rightarrow> bool" where
  "is_AlreadyExists (Some (AlreadyExists _)) = True"
| "is_AlreadyExists _ = False"

fun is_AccessDenied :: "error option \<Rightarrow> bool" where
  "is_AccessDenied (Some (AccessDenied _)) = True"
| "is_AccessDenied _ = False"

section \<open>State: the remote system, the calls issued, the log\<close>

text \<open>
  Every operation runs on a state: the world \<open>'w\<close> (the remote cluster, the network and
  the clock, whatever decides the answers of the API and the outcome of a wait), the
  remote calls issued so far, and the lines logged so far. A log line keeps the level, the
  fields of the logger (the process-wide logger has none), the format and its arguments.
\<close>

datatype call =
    CallJobsGet string string
  | CallJobsDelete string string "DeleteOptions option"
  | CallJobsCreate string Job
  | CallPodsList string ListOptions
  | CallPodsDelete string string "DeleteOptions option"

datatype level = DebugLevel | InfoLevel | WarningLevel

datatype logval = LVal fmtval | LDebugReport "error option"

type_synonym Entry = "(string \<times> fmtval) list"

datatype log_line = LogLine level Entry string "logval list"

record 'w st =
  world :: 'w
  calls :: "call list"
  logs :: "log_line list"

definition logf :: "level \<Rightarrow> Entry \<Rightarrow> string \<Rightarrow> logval list \<Rightarrow> 'w st \<Rightarrow> 'w st" where
  "logf lvl entry format args s = s\<lparr>logs := logs s @ [LogLine lvl entry format args]\<rparr>"

text \<open>The process-wide logger of \<^verbatim>\<open>logrus\<close>: an entry without fields.\<close>

definition logrus :: Entry where
  "logrus = []"

definition WithFields :: "(string \<times> fmtval) list \<Rightarrow> Entry" where
  "WithFields fs = fs"

text \<open>
  The client of the cluster API, an external collaborator: each call answers from the
  world and may change it. A Go result \<^verbatim>\<open>(T, error)\<close> is the pair of the value and the
  error (nil is \<open>None\<close>); as in Go, the value is there also when the error is not nil.
\<close>

record 'w Clientset =
  Jobs_Get :: "string \<Rightarrow> string \<Rightarrow> 'w \<Rightarrow> (Job \<times> error option) \<times> 'w"
  Jobs_Delete :: "string \<Rightarrow> string \<Rightarrow> DeleteOptions option \<Rightarrow> 'w \<Rightarrow> error option \<times> 'w"
  Jobs_Create :: "string \<Rightarrow> Job \<Rightarrow> 'w \<Rightarrow> (Job \<times> error option) \<times> 'w"
  Pods_List :: "string \<Rightarrow> ListOptions \<Rightarrow> 'w \<Rightarrow> (Pod list \<times> error option) \<times> 'w"
  Pods_Delete :: "string \<Rightarrow> string \<Rightarrow> DeleteOptions option \<Rightarrow> 'w \<Rightarrow> error option \<times> 'w"

text \<open>One remote call: the client's answer, the new world, and the call recorded.\<close>

definition remote :: "call \<Rightarrow> ('w \<Rightarrow> 'a \<times> 'w) \<Rightarrow> 'w st \<Rightarrow> 'a \<times> 'w st" where
  "remote c f s = (case f (world s) of (r, w) \<Rightarrow> (r, s\<lparr>world := w, calls := calls s @ [c]\<rparr>))"

definition jobs_Get :: "'w Clientset \<Rightarrow> string \<Rightarrow> string \<Rightarrow> 'w st \<Rightarrow> (Job \<times> error option) \<times> 'w st" where
  "jobs_Get cs ns name = remote (CallJobsGet ns name) (Jobs_Get cs ns name)"


definition jobs_Create :: "'w Clientset \<Rightarrow> string \<Rightarrow> Job \<Rightarrow> 'w st \<Rightarrow> (Job \<times> error option) \<times> 'w st" where
  "jobs_Create cs ns job = remote (CallJobsCreate ns job) (Jobs_Create cs ns job)"

definition pods_List ::
  "'w Clientset \<Rightarrow> string \<Rightarrow> ListOptions \<Rightarrow> 'w st \<Rightarrow> (Pod list \<times> error option) \<times> 'w st" where
  "pods_List cs ns opts = remote (CallPodsList ns opts) (Pods_List cs ns opts)"


text \<open>
  A \<^verbatim>\<open>context.Context\<close> as \<^verbatim>\<open>retry\<close> uses it: the outcome of the \<^verbatim>\<open>select\<close> between
  \<^verbatim>\<open>ctx.Done()\<close> and \<^verbatim>\<open>time.After(period)\<close>, \<open>True\<close> when the context is done first.
\<close>

type_synonym 'w Context = "int \<Rightarrow> 'w \<Rightarrow> bool \<times> 'w"

definition select_Done :: "'w Context \<Rightarrow> int \<Rightarrow> 'w st \<Rightarrow> bool \<times> 'w st" where
  "select_Done ctx period s = (case ctx period (world s) of (b, w) \<Rightarrow> (b, s\<lparr>world := w\<rparr>))"

section \<open>utils.go: retry\<close>

function retry_loop ::
  "'w Context \<Rightarrow> int \<Rightarrow> int \<Rightarrow> ('w st \<Rightarrow> error option \<times> 'w st) \<Rightarrow> int \<Rightarrow> error option \<Rightarrow> 'w st
   \<Rightarrow> error option \<times> 'w st" where
  "retry_loop ctx ntimes period fn i err s =
     (if i < ntimes \<and> err \<noteq> None then
        (let s = logf InfoLevel logrus ''attempt %v, result: %v, retry in %v''
                   [LVal (VInt (i + 1)), LDebugReport err, LVal (VDuration period)] s;
             (done, s) = select_Done ctx period s
         in if done then
              (let s = logf InfoLevel logrus ''context is closing, return'' [] s in (err, s))
            else
              (let (err, s) = fn s in retry_loop ctx ntimes period fn (i + 1) err s))
      else (err, s))"
  by pat_completeness auto
termination
  by (relation "measure (\<lambda>(ctx, ntimes, period, fn, i, err, s). nat (ntimes - i))") auto

declare retry_loop.simps [simp del]

definition retry ::
  "'w Context \<Rightarrow> int \<Rightarrow> int \<Rightarrow> ('w st \<Rightarrow> error option \<times> 'w st) \<Rightarrow> 'w st \<Rightarrow> error option \<times> 'w st" where
  "retry ctx ntimes period fn s =
     (if ntimes < 1 then (None, s)
      else (let (err, s) = fn s in retry_loop ctx ntimes period fn 1 err s))"

text \<open>
  Observing a run of \<^verbatim>\<open>retry\<close>: the probe and the context are wrapped so that every call of
  the probe (with its result) and every wait (with its period and whether the context was
  done first) is appended to a list of events carried beside the world. The wrapped probe
  and context behave on the world as the ones they wrap.
\<close>

datatype event = Called "error option" | Waited int bool

definition forget :: "('v \<times> event list) st \<Rightarrow> 'v st" where
  "forget s = \<lparr>world = fst (world s), calls = calls s, logs = logs s\<rparr>"

definition events :: "('v \<times> event list) st \<Rightarrow> event list" where
  "events s = snd (world s)"

definition observe :: "'v st \<Rightarrow> ('v \<times> event list) st" where
  "observe s = \<lparr>world = (world s, []), calls = calls s, logs = logs s\<rparr>"

definition observed_fn ::
  "('v st \<Rightarrow> error option \<times> 'v st) \<Rightarrow> ('v \<times> event list) st \<Rightarrow> error option \<times> ('v \<times> event list) st" where
  "observed_fn fn s =
     (case fn (forget s) of
        (r, s') \<Rightarrow> (r, \<lparr>world = (world s', events s @ [Called r]), calls = calls s', logs = logs s'\<rparr>))"

definition observed_ctx :: "'v Context \<Rightarrow> ('v \<times> event list) Context" where
  "observed_ctx ctx period w =
     (case ctx period (fst w) of (b, v) \<Rightarrow> (b, (v, snd w @ [Waited period b])))"

text \<open>
  The contract of \<^verbatim>\<open>retry\<close> in the words of the specification, as a check of the events of
  a run against its result. \<open>after_call n period k latest es r\<close>: \<open>k\<close> calls have been made,
  the latest returned \<open>latest\<close>, and \<open>es\<close> is what follows. The run may stop there only when
  the latest call succeeded or \<open>n\<close> calls have been made; otherwise it waits one period, and
  either the context is done during the wait and the run stops with the latest error, or
  the probe is called again.
\<close>

fun after_call :: "int \<Rightarrow> int \<Rightarrow> int \<Rightarrow> error option \<Rightarrow> event list \<Rightarrow> error option \<Rightarrow> bool" where
  "after_call n period k latest [] r = (r = latest \<and> (latest = None \<or> n \<le> k))"
| "after_call n period k latest [Waited p True] r =
     (p = period \<and> latest \<noteq> None \<and> k < n \<and> r = latest)"
| "after_call n period k latest (Waited p False # Called e # es) r =
     (p = period \<and> latest \<noteq> None \<and> k < n \<and> after_call n period (k + 1) e es r)"
| "after_call n period k latest es r = False"

definition retry_contract :: "int \<Rightarrow> int \<Rightarrow> event list \<Rightarrow> error option \<Rightarrow> bool" where
  "retry_contract n period es r =
     (if n \<le> 0 then es = [] \<and> r = None
      else (case es of Called e # es' \<Rightarrow> after_call n period 1 e es' r | _ \<Rightarrow> False))"

section \<open>Helpers of the repository that are not under src/\<close>

text \<open>
  \<^verbatim>\<open>ParseSerializedReference\<close> (the decoder of the provenance annotation) and the bounds of
  the two waiting loops are parameters of the model.
\<close>

record deps =
  ParseSerializedReference :: "string \<Rightarrow> SerializedReference \<times> error option"
  pollAttempts :: nat
  pollExhausted :: error
  backoffRetries :: nat



text \<open>
  Modelled from the spec: \<^verbatim>\<open>withExponentialBackoff\<close> is not under \<^verbatim>\<open>src/\<close>. The specification
  (4.1 step 5, 4.2) says: the creation runs under a bounded exponential-backoff retry policy,
  with the exhaustion contract of \<^verbatim>\<open>retry\<close>: the probe is called, and called again while it
  fails and the bound allows; the last result is returned. The bound is \<open>backoffRetries\<close>
  calls after the first. No context is passed to it, so no wait of it is cancelled.
\<close>

fun backoff_loop ::
  "nat \<Rightarrow> ('w st \<Rightarrow> error option \<times> 'w st) \<Rightarrow> 'w st \<Rightarrow> error option \<times> 'w st" where
  "backoff_loop 0 fn s = fn s"
| "backoff_loop (Suc n) fn s =
     (let (err, s) = fn s in if err = None then (None, s) else backoff_loop n fn s)"

definition withExponentialBackoff ::
  "deps \<Rightarrow> ('w st \<Rightarrow> error option \<times> 'w st) \<Rightarrow> 'w st \<Rightarrow> error option \<times> 'w st" where
  "withExponentialBackoff d fn s = backoff_loop (backoffRetries d) fn s"

section \<open>utils.go: CollectPods\<close>

text \<open>
  \<^verbatim>\<open>labels.Set.AsSelector()\<close>: one equality requirement for each label of the set. The list
  call carries the selector; its rendering as a string is not modelled. A selector matches
  the labels that meet all its requirements.
\<close>

definition AsSelector :: "labels \<Rightarrow> labels" where
  "AsSelector ls = ls"

definition Matches :: "labels \<Rightarrow> labels \<Rightarrow> bool" where
  "Matches selector ls = list_all (\<lambda>(key, val). map_of ls key = Some val) selector"

text \<open>
  The result \<^verbatim>\<open>map[string]v1.Pod\<close> is an association list with one entry for each key; a
  \<^verbatim>\<open>range\<close> over it visits the entries in the order of the list (Go leaves the order open).
\<close>

fun collect_loop ::
  "deps \<Rightarrow> Entry \<Rightarrow> (ObjectReference \<Rightarrow> bool) \<Rightarrow> Pod list \<Rightarrow> (string \<times> Pod) list \<Rightarrow> 'w st
   \<Rightarrow> (string \<times> Pod) list \<times> 'w st" where
  "collect_loop d entry fn [] pods s = (pods, s)"
| "collect_loop d entry fn (pod # items) pods s =
     (case map_of (Annotations (PodMeta pod)) AnnotationCreatedBy of
        None \<Rightarrow> collect_loop d entry fn items pods s
      | Some createdBy \<Rightarrow>
          (let (ref, err) = ParseSerializedReference d createdBy
           in if err \<noteq> None then
                collect_loop d entry fn items pods
                  (logf WarningLevel logrus ''%v'' [LDebugReport err] s)
              else if fn (Reference ref) then
                collect_loop d entry fn items (AList.update (NodeName pod) pod pods)
                  (logf InfoLevel entry ''found pod %v on node %v''
                     [LVal (formatMeta (PodMeta pod)), LVal (VStr (NodeName pod))] s)
              else collect_loop d entry fn items pods s))"

definition CollectPods ::
  "deps \<Rightarrow> string \<Rightarrow> labels \<Rightarrow> Entry \<Rightarrow> 'w Clientset \<Rightarrow> (ObjectReference \<Rightarrow> bool) \<Rightarrow> 'w st
   \<Rightarrow> ((string \<times> Pod) list \<times> error option) \<times> 'w st" where
  "CollectPods d namespace matchLabels entry client fn s =
     (let lset = foldl (\<lambda>lset (key, val). AList.update key val lset) [] matchLabels;
          ((podList, err), s) = pods_List client namespace \<lparr>LabelSelector_of = AsSelector lset\<rparr> s
      in if err \<noteq> None then (([], ConvertError err), s)
         else (let (pods, s) = collect_loop d entry fn podList [] s in ((pods, None), s)))"

section \<open>job.go: the controller\<close>

text \<open>
  A call either returns or panics (a nil pointer is dereferenced). \<^verbatim>\<open>JobConfig\<close> holds two
  pointers, each of which may be nil.
\<close>

datatype 'a go = Return 'a | Panic

record 'w JobConfig =
  Job :: "Job option"
  Clientset :: "'w Clientset option"

record 'w JobControl =
  JobConfig :: "'w JobConfig"
  Entry :: Entry

text \<open>
  \<^verbatim>\<open>checkAndSetDefaults\<close> writes through the pointer \<^verbatim>\<open>c.Job\<close>: the configuration with the
  updated job is returned beside the result.
\<close>

definition checkAndSetDefaults :: "'w JobConfig \<Rightarrow> error option go \<times> 'w JobConfig" where
  "checkAndSetDefaults c =
     (if Clientset c = None then
        (Return (Some (BadParameter (Sprintf ''missing parameter Clientset'' []))), c)
      else
        (case Job c of
           None \<Rightarrow> (Panic, c)
         | Some job \<Rightarrow>
             (let job = job\<lparr>Kind := KindJob\<rparr>;
                  job = (if APIVersion job = '''' then job\<lparr>APIVersion := BatchAPIVersion\<rparr> else job)
              in (Return None, c\<lparr>Job := Some job\<rparr>))))"

definition NewJobControl :: "'w JobConfig \<Rightarrow> ('w JobControl option \<times> error option) go" where
  "NewJobControl config =
     (case checkAndSetDefaults config of
        (Panic, config) \<Rightarrow> Panic
      | (Return err, config) \<Rightarrow>
          if err \<noteq> None then Return (None, Wrap err)
          else
            (case Job config of
               None \<Rightarrow> Panic
             | Some job \<Rightarrow>
                 Return (Some \<lparr>JobConfig = config,
                                Entry = WithFields [(''job'', formatMeta (JobMeta job))]\<rparr>, None)))"

text \<open>
  With a nil client, \<^verbatim>\<open>CollectPods\<close> panics at its first use of the client, which is the
  list call, before anything is logged or called; \<^verbatim>\<open>collectPods\<close> has that case here, and
  \<^verbatim>\<open>CollectPods\<close> above takes a client that is not nil. A nil client makes \<^verbatim>\<open>Status\<close>,
  \<^verbatim>\<open>Delete\<close> and \<^verbatim>\<open>Upsert\<close> panic in the same way, at \<^verbatim>\<open>c.Batch().Jobs\<close>. The logger
  \<^verbatim>\<open>Entry\<close> of a controller is taken not to be nil.
\<close>

definition collectPods ::
  "deps \<Rightarrow> 'w JobControl \<Rightarrow> Job \<Rightarrow> 'w st \<Rightarrow> ((string \<times> Pod) list \<times> error option) go \<times> 'w st" where
  "collectPods d c job s =
     (let labels = (case Selector (Spec job) of
                      None \<Rightarrow> []
                    | Some selector \<Rightarrow> MatchLabels selector)
      in case Clientset (JobConfig c) of
           None \<Rightarrow> (Panic, s)
         | Some client \<Rightarrow>
             (let ((pods, err), s) =
                    CollectPods d (Namespace (JobMeta job)) labels (Entry c) client
                      (\<lambda>ref. refKind ref = KindJob \<and> refUID ref = UID (JobMeta job)) s
              in (Return (pods, ConvertError err), s)))"

definition Status :: "'w JobControl \<Rightarrow> 'w st \<Rightarrow> error option go \<times> 'w st" where
  "Status c s =
     (case (Clientset (JobConfig c), Job (JobConfig c)) of
        (Some client, Some cjob) \<Rightarrow>
          (let ((job, err), s) = jobs_Get client (Namespace (JobMeta cjob)) (Name (JobMeta cjob)) s
           in if err \<noteq> None then (Return (ConvertError err), s)
              else
                (let succeeded = Succeeded (Status_of job);
                     active = Active (Status_of job);
                     complete =
                       (case Completions (Spec job) of
                          None \<Rightarrow> (if succeeded > 0 \<and> active = 0 then True else False)
                        | Some completions \<Rightarrow> (if succeeded \<ge> completions then True else False))
                 in if \<not> complete then
                      (Return (Some (CompareFailed
                         (Sprintf ''job %v not yet complete (succeeded: %v, active: %v)''
                            [formatMeta (JobMeta job), VInt succeeded, VInt active]))), s)
                    else (Return None, s)))
      | _ \<Rightarrow> (Panic, s))"




text \<open>
  Lines 108 to 115 of \<^verbatim>\<open>Upsert\<close> (109 to 116 in \<^verbatim>\<open>src/unnamed/part_000\<close>): the identity given
  by the server is cleared, and with a selector present the generated label is deleted from
  the selector's labels and from the template's.
\<close>

definition clear_identity :: "Job \<Rightarrow> Job" where
  "clear_identity job =
     (let job = job\<lparr>JobMeta := (JobMeta job)\<lparr>UID := '''', SelfLink := '''', ResourceVersion := ''''\<rparr>\<rparr>
      in case Selector (Spec job) of
           None \<Rightarrow> job
         | Some selector \<Rightarrow>
             job\<lparr>Spec := (Spec job)
               \<lparr>Selector :=
                  Some (selector\<lparr>MatchLabels := AList.delete ControllerUIDLabel (MatchLabels selector)\<rparr>),
                Template :=
                  (Template (Spec job))
                    \<lparr>Labels := AList.delete ControllerUIDLabel (Labels (Template (Spec job)))\<rparr>\<rparr>\<rparr>)"

text \<open>
  \<^verbatim>\<open>Upsert\<close> writes through the pointer \<^verbatim>\<open>c.Job\<close>: the controller with the updated job is
  returned beside the result. \<open>Upsert_create\<close> is the function from line 107 on, where
  every path that does not leave early arrives.
\<close>

definition Upsert_create ::
  "deps \<Rightarrow> 'w JobControl \<Rightarrow> 'w Clientset \<Rightarrow> Job \<Rightarrow> 'w st \<Rightarrow> error option go \<times> 'w JobControl \<times> 'w st" where
  "Upsert_create d c client cjob s =
     (let s = logf InfoLevel (Entry c) ''creating new job'' [] s;
          ns = Namespace (JobMeta cjob);
          cjob = clear_identity cjob;
          c = c\<lparr>JobConfig := (JobConfig c)\<lparr>Job := Some cjob\<rparr>\<rparr>;
          (err, s) = withExponentialBackoff d
                       (\<lambda>s. let ((job, err), s) = jobs_Create client ns cjob s
                            in (ConvertError err, s)) s
      in (Return (Wrap err), c, s))"


section \<open>src/unnamed/part_000: the controller, in the revision without the wait\<close>




section \<open>What the claims speak of\<close>

text \<open>
  A pod is owned, for a decoder and an owner predicate, when it carries the provenance
  annotation, the annotation decodes without error, and the decoded reference satisfies the
  predicate. \<open>by_node\<close> keys pods by their node, a later pod replacing an earlier one of the
  same node.
\<close>

definition owned :: "deps \<Rightarrow> (ObjectReference \<Rightarrow> bool) \<Rightarrow> Pod \<Rightarrow> bool" where
  "owned d fn pod =
     (case map_of (Annotations (PodMeta pod)) AnnotationCreatedBy of
        None \<Rightarrow> False
      | Some createdBy \<Rightarrow>
          snd (ParseSerializedReference d createdBy) = None
          \<and> fn (Reference (fst (ParseSerializedReference d createdBy))))"

definition malformed :: "deps \<Rightarrow> Pod \<Rightarrow> bool" where
  "malformed d pod =
     (case map_of (Annotations (PodMeta pod)) AnnotationCreatedBy of
        None \<Rightarrow> False
      | Some createdBy \<Rightarrow> snd (ParseSerializedReference d createdBy) \<noteq> None)"

definition by_node :: "(string \<times> Pod) list \<Rightarrow> Pod list \<Rightarrow> (string \<times> Pod) list" where
  "by_node acc pods = foldl (\<lambda>acc pod. AList.update (NodeName pod) pod acc) acc pods"

definition owner_is :: "Job \<Rightarrow> ObjectReference \<Rightarrow> bool" where
  "owner_is job ref = (refKind ref = KindJob \<and> refUID ref = UID (JobMeta job))"





fun is_JobsDelete :: "call \<Rightarrow> bool" where
  "is_JobsDelete (CallJobsDelete ns name opts) = True"
| "is_JobsDelete c = False"

fun is_PodsList :: "call \<Rightarrow> bool" where
  "is_PodsList (CallPodsList ns opts) = True"
| "is_PodsList c = False"



fun fmt_args :: "fmtval \<Rightarrow> fmtval list" where
  "fmt_args (Sprintf format args) = args"
| "fmt_args v = []"

fun is_CompareFailed_with :: "fmtval list \<Rightarrow> error option go \<Rightarrow> bool" where
  "is_CompareFailed_with vs (Return (Some (CompareFailed m))) = list_all (\<lambda>v. v \<in> set (fmt_args m)) vs"
| "is_CompareFailed_with vs r = False"

fun is_BadParameter :: "error option \<Rightarrow> bool" where
  "is_BadParameter (Some (BadParameter m)) = True"
| "is_BadParameter e = False"

section \<open>A cluster to run the operations on\<close>

text \<open>
  A small cluster that answers the calls of the client from two lists, and a decoder of
  references written \<^verbatim>\<open>Kind/UID\<close>: concrete inputs for the theorems below.
\<close>

record cluster =
  cjobs :: "Job list"
  cpods :: "Pod list"

definition meta :: "string \<Rightarrow> string \<Rightarrow> string \<Rightarrow> labels \<Rightarrow> ObjectMeta" where
  "meta ns name uid anns =
     \<lparr>Name = name, Namespace = ns, UID = uid, SelfLink = '''', ResourceVersion = '''',
      Labels = [], Annotations = anns\<rparr>"

definition a_job :: "string \<Rightarrow> string \<Rightarrow> string \<Rightarrow> string \<Rightarrow> int option \<Rightarrow> int \<Rightarrow> int \<Rightarrow> Job" where
  "a_job kind ns name uid completions succeeded active =
     \<lparr>Kind = kind, APIVersion = '''', JobMeta = meta ns name uid [],
      Spec = \<lparr>Completions = completions, Selector = None, Template = meta '''' '''' '''' []\<rparr>,
      Status_of = \<lparr>Succeeded = succeeded, Active = active\<rparr>\<rparr>"

definition a_pod :: "string \<Rightarrow> string \<Rightarrow> string \<Rightarrow> labels \<Rightarrow> Pod" where
  "a_pod ns name node anns = \<lparr>PodMeta = meta ns name '''' anns, NodeName = node\<rparr>"

definition status_error :: "int \<Rightarrow> string \<Rightarrow> error" where
  "status_error code reason =
     StatusError \<lparr>Code = code, Reason = reason, Message = reason, Details = None\<rparr>"

definition names :: "string \<Rightarrow> string \<Rightarrow> ObjectMeta \<Rightarrow> bool" where
  "names ns name m = (Namespace m = ns \<and> Name m = name)"

definition cluster_client :: "cluster Clientset" where
  "cluster_client =
     \<lparr>Jobs_Get = (\<lambda>ns name w.
        case find (\<lambda>j. names ns name (JobMeta j)) (cjobs w) of
          None \<Rightarrow> ((a_job '''' '''' '''' '''' None 0 0, Some (status_error 404 ''NotFound'')), w)
        | Some j \<Rightarrow> ((j, None), w)),
      Jobs_Delete = (\<lambda>ns name opts w.
        if list_ex (\<lambda>j. names ns name (JobMeta j)) (cjobs w)
        then (None, w\<lparr>cjobs := filter (\<lambda>j. \<not> names ns name (JobMeta j)) (cjobs w)\<rparr>)
        else (Some (status_error 404 ''NotFound''), w)),
      Jobs_Create = (\<lambda>ns job w.
        if list_ex (\<lambda>j. names ns (Name (JobMeta job)) (JobMeta j)) (cjobs w)
        then ((a_job '''' '''' '''' '''' None 0 0, Some (status_error 409 ''AlreadyExists'')), w)
        else ((job, None), w\<lparr>cjobs := cjobs w @ [job]\<rparr>)),
      Pods_List = (\<lambda>ns opts w.
        ((filter (\<lambda>p. Namespace (PodMeta p) = ns
                      \<and> Matches (LabelSelector_of opts) (Labels (PodMeta p))) (cpods w), None), w)),
      Pods_Delete = (\<lambda>ns name opts w.
        if list_ex (\<lambda>p. names ns name (PodMeta p)) (cpods w)
        then (None, w\<lparr>cpods := filter (\<lambda>p. \<not> names ns name (PodMeta p)) (cpods w)\<rparr>)
        else (Some (status_error 404 ''NotFound''), w))\<rparr>"

definition decode_ref :: "string \<Rightarrow> SerializedReference \<times> error option" where
  "decode_ref s =
     (if CHR ''/'' \<in> set s
      then (\<lparr>Reference = \<lparr>refKind = takeWhile (\<lambda>c. c \<noteq> CHR ''/'') s,
                           refUID = drop 1 (dropWhile (\<lambda>c. c \<noteq> CHR ''/'') s)\<rparr>\<rparr>, None)
      else (\<lparr>Reference = \<lparr>refKind = '''', refUID = ''''\<rparr>\<rparr>, Some (OtherError ''malformed reference'')))"

definition some_deps :: deps where
  "some_deps =
     \<lparr>ParseSerializedReference = decode_ref, pollAttempts = 3,
      pollExhausted = OtherError ''timed out'', backoffRetries = 2\<rparr>"

definition never_done :: "'w Context" where
  "never_done period w = (False, w)"

definition start :: "'w \<Rightarrow> 'w st" where
  "start w = \<lparr>world = w, calls = [], logs = []\<rparr>"

definition control_of :: "Job \<Rightarrow> cluster JobControl" where
  "control_of job =
     \<lparr>JobConfig = \<lparr>Job = Some job, Clientset = Some cluster_client\<rparr>,
      Entry = WithFields [(''job'', formatMeta (JobMeta job))]\<rparr>"

text \<open>Probes and a context for \<^verbatim>\<open>retry\<close>: the world counts the calls of the probe.\<close>

definition failing_first :: "nat \<Rightarrow> nat st \<Rightarrow> error option \<times> nat st" where
  "failing_first k s =
     ((if world s < k then Some (OtherError ''not yet'') else None), s\<lparr>world := Suc (world s)\<rparr>)"

definition done_from :: "nat \<Rightarrow> nat Context" where
  "done_from k period w = (k \<le> w, w)"

definition pi :: "int option \<Rightarrow> int \<Rightarrow> int \<Rightarrow> Job" where
  "pi completions succeeded active = a_job ''Job'' ''default'' ''pi'' ''u1'' completions succeeded active"

definition running :: "Job list \<Rightarrow> Pod list \<Rightarrow> cluster st" where
  "running jobs pods = start \<lparr>cjobs = jobs, cpods = pods\<rparr>"

fun is_warning :: "log_line \<Rightarrow> bool" where
  "is_warning (LogLine lvl entry format args) = (lvl = WarningLevel)"

definition created_by :: "string \<Rightarrow> labels" where
  "created_by ref = [(AnnotationCreatedBy, ref)]"

definition pi_pod :: "string \<Rightarrow> string \<Rightarrow> Pod" where
  "pi_pod name node = a_pod ''default'' name node (created_by ''Job/u1'')"

text \<open>States that agree on the world and on the calls issued: they differ in the log only.\<close>

definition agree :: "'w st \<Rightarrow> 'w st \<Rightarrow> bool" where
  "agree s t = (world s = world t \<and> calls s = calls t)"





section \<open>The error translator\<close>

text \<open>
  C3. \<^verbatim>\<open>ConvertErrorWithContext\<close> returns nil for nil and returns an error that is not a
  status error as it is. For a status error it answers by code and reason: 409 with the
  reason AlreadyExists gives an AlreadyExists error, 404 a NotFound error, 403 an
  AccessDenied error, and everything else (409 with another reason included) gives the
  error it was given.
\<close>

theorem ConvertErrorWithContext_cases:
  "ConvertErrorWithContext None format args = None
   \<and> (\<not> is_StatusError e \<longrightarrow> ConvertErrorWithContext (Some e) format args = Some e)
   \<and> (Code st = 409 \<and> Reason st = StatusReasonAlreadyExists
        \<longrightarrow> is_AlreadyExists (ConvertErrorWithContext (Some (StatusError st)) format args))
   \<and> (Code st = 404
        \<longrightarrow> IsNotFound (ConvertErrorWithContext (Some (StatusError st)) format args))
   \<and> (Code st = 403
        \<longrightarrow> is_AccessDenied (ConvertErrorWithContext (Some (StatusError st)) format args))
   \<and> (Code st \<noteq> 404 \<and> Code st \<noteq> 403 \<and> \<not> (Code st = 409 \<and> Reason st = StatusReasonAlreadyExists)
        \<longrightarrow> ConvertErrorWithContext (Some (StatusError st)) format args = Some (StatusError st))"
  by (cases e)
     (simp_all add: ConvertErrorWithContext_def Let_def StatusConflict_def StatusNotFound_def
        StatusForbidden_def)

theorem ConvertErrorWithContext_cases_witness:
  "ConvertErrorWithContext (Some (OtherError ''eof'')) '''' [] = Some (OtherError ''eof'')
   \<and> is_AlreadyExists (ConvertErrorWithContext (Some (status_error 409 ''AlreadyExists'')) '''' [])
   \<and> IsNotFound (ConvertErrorWithContext (Some (status_error 404 ''NotFound'')) '''' [])
   \<and> is_AccessDenied (ConvertErrorWithContext (Some (status_error 403 ''Forbidden'')) '''' [])
   \<and> ConvertErrorWithContext (Some (status_error 500 ''InternalError'')) '''' []
       = Some (status_error 500 ''InternalError'')
   \<and> ConvertErrorWithContext (Some (status_error 409 ''Conflict'')) '''' []
       = Some (status_error 409 ''Conflict'')"
  using
    ConvertErrorWithContext_cases [where e = "OtherError ''eof''" and format = "''''" and args = "[]"
      and st = "\<lparr>Code = 409, Reason = ''AlreadyExists'', Message = ''AlreadyExists'', Details = None\<rparr>"]
    ConvertErrorWithContext_cases [where e = "OtherError ''eof''" and format = "''''" and args = "[]"
      and st = "\<lparr>Code = 404, Reason = ''NotFound'', Message = ''NotFound'', Details = None\<rparr>"]
    ConvertErrorWithContext_cases [where e = "OtherError ''eof''" and format = "''''" and args = "[]"
      and st = "\<lparr>Code = 403, Reason = ''Forbidden'', Message = ''Forbidden'', Details = None\<rparr>"]
    ConvertErrorWithContext_cases [where e = "OtherError ''eof''" and format = "''''" and args = "[]"
      and st = "\<lparr>Code = 500, Reason = ''InternalError'', Message = ''InternalError'', Details = None\<rparr>"]
    ConvertErrorWithContext_cases [where e = "OtherError ''eof''" and format = "''''" and args = "[]"
      and st = "\<lparr>Code = 409, Reason = ''Conflict'', Message = ''Conflict'', Details = None\<rparr>"]
  by (simp add: status_error_def StatusReasonAlreadyExists_def)

section \<open>The retry engine\<close>

lemma forget_logf [simp]: "forget (logf l e f a s) = logf l e f a (forget s)"
  by (simp add: forget_def logf_def)

lemma events_logf [simp]: "events (logf l e f a s) = events s"
  by (simp add: events_def logf_def)

lemma select_observed:
  "select_Done (observed_ctx ctx) p s = (b, s') \<Longrightarrow>
   select_Done ctx p (forget s) = (b, forget s') \<and> events s' = events s @ [Waited p b]"
  by (auto simp: select_Done_def observed_ctx_def forget_def events_def split: prod.splits)

lemma fn_observed:
  "observed_fn fn s = (r, s') \<Longrightarrow> fn (forget s) = (r, forget s') \<and> events s' = events s @ [Called r]"
  by (auto simp: observed_fn_def forget_def events_def split: prod.splits)

lemma retry_loop_stop:
  "\<not> (i < n \<and> err \<noteq> None) \<Longrightarrow> retry_loop ctx n p fn i err s = (err, s)"
  by (subst retry_loop.simps) auto

lemma retry_loop_step:
  "i < n \<and> err \<noteq> None \<Longrightarrow>
   retry_loop ctx n p fn i err s =
     (case select_Done ctx p (logf InfoLevel logrus ''attempt %v, result: %v, retry in %v''
                   [LVal (VInt (i + 1)), LDebugReport err, LVal (VDuration p)] s) of
        (done, s1) \<Rightarrow>
          if done then (err, logf InfoLevel logrus ''context is closing, return'' [] s1)
          else (case fn s1 of (e, s2) \<Rightarrow> retry_loop ctx n p fn (i + 1) e s2))"
  by (subst retry_loop.simps) (auto simp: Let_def split: prod.splits)

lemma retry_loop_observed:
  "retry_loop (observed_ctx ctx) n p (observed_fn fn) i err s = (r, s') \<Longrightarrow>
   retry_loop ctx n p fn i err (forget s) = (r, forget s')
   \<and> (\<exists>es. events s' = events s @ es \<and> after_call n p i err es r)"
proof (induction "observed_ctx ctx" n p "observed_fn fn" i err s arbitrary: r s' rule: retry_loop.induct)
  case (1 n p i err s)
  let ?s1 = "logf InfoLevel logrus ''attempt %v, result: %v, retry in %v''
                   [LVal (VInt (i + 1)), LDebugReport err, LVal (VDuration p)] s"
  show ?case
  proof (cases "i < n \<and> err \<noteq> None")
    case False
    with "1.prems" have "r = err" "s' = s"
      by (simp_all add: retry_loop_stop)
    with False show ?thesis
      by (auto simp: retry_loop_stop)
  next
    case True
    obtain b s2 where sel: "select_Done (observed_ctx ctx) p ?s1 = (b, s2)"
      by (cases "select_Done (observed_ctx ctx) p ?s1")
    note so = select_observed [OF sel]
    show ?thesis
    proof (cases b)
      case True
      with \<open>i < n \<and> err \<noteq> None\<close> sel "1.prems"
      have res: "r = err" "s' = logf InfoLevel logrus ''context is closing, return'' [] s2"
        by (simp_all add: retry_loop_step)
      have "retry_loop ctx n p fn i err (forget s) = (r, forget s')"
        using \<open>i < n \<and> err \<noteq> None\<close> so True res
        by (simp add: retry_loop_step)
      moreover have "events s' = events s @ [Waited p True]"
        using so True res by simp
      moreover have "after_call n p i err [Waited p True] r"
        using \<open>i < n \<and> err \<noteq> None\<close> res by simp
      ultimately show ?thesis by blast
    next
      case False
      obtain e s3 where call: "observed_fn fn s2 = (e, s3)"
        by (cases "observed_fn fn s2")
      note fo = fn_observed [OF call]
      have rest: "retry_loop (observed_ctx ctx) n p (observed_fn fn) (i + 1) e s3 = (r, s')"
        using \<open>i < n \<and> err \<noteq> None\<close> sel False call "1.prems"
        by (simp add: retry_loop_step)
      have ih: "retry_loop ctx n p fn (i + 1) e (forget s3) = (r, forget s')
                \<and> (\<exists>es. events s' = events s3 @ es \<and> after_call n p (i + 1) e es r)"
        using "1.hyps" [OF \<open>i < n \<and> err \<noteq> None\<close> refl sel [symmetric] refl _ call [symmetric] refl rest] False
        by simp
      then obtain es where es: "events s' = events s3 @ es" "after_call n p (i + 1) e es r"
        by blast
      have "retry_loop ctx n p fn i err (forget s) = (r, forget s')"
        using \<open>i < n \<and> err \<noteq> None\<close> so False fo ih
        by (simp add: retry_loop_step)
      moreover have "events s' = events s @ (Waited p False # Called e # es)"
        using so fo es False by simp
      moreover have "after_call n p i err (Waited p False # Called e # es) r"
        using \<open>i < n \<and> err \<noteq> None\<close> es by simp
      ultimately show ?thesis by blast
    qed
  qed
qed

lemma forget_observe [simp]: "forget (observe s) = s"
  by (simp add: forget_def observe_def)

lemma events_observe [simp]: "events (observe s) = []"
  by (simp add: events_def observe_def)

text \<open>
  C4. For every number of attempts, period, probe, context and state: the observed run of
  \<^verbatim>\<open>retry\<close> returns what the plain run returns and leaves the same state, and its events
  meet the contract. With \<open>n \<le> 0\<close> there is no event and the result is nil. With \<open>n \<ge> 1\<close>
  the probe is called; while the latest result is an error and fewer than \<open>n\<close> calls have
  been made, one period is waited and the probe is called again; the result is that of the
  last call. When the context is done during a wait, the latest error is returned and the
  probe is not called again.
\<close>

theorem retry_meets_contract:
  "(case retry (observed_ctx ctx) n period (observed_fn fn) (observe s) of
      (r, s') \<Rightarrow> retry ctx n period fn s = (r, forget s') \<and> retry_contract n period (events s') r)"
proof (cases "n < 1")
  case True
  then show ?thesis
    by (simp add: retry_def retry_contract_def)
next
  case False
  obtain e s1 where call: "observed_fn fn (observe s) = (e, s1)"
    by (cases "observed_fn fn (observe s)")
  obtain r s' where run: "retry_loop (observed_ctx ctx) n period (observed_fn fn) 1 e s1 = (r, s')"
    by (cases "retry_loop (observed_ctx ctx) n period (observed_fn fn) 1 e s1")
  from fn_observed [OF call] have first: "fn s = (e, forget s1)" "events s1 = [Called e]"
    by simp_all
  from retry_loop_observed [OF run] obtain es where
    rest: "retry_loop ctx n period fn 1 e (forget s1) = (r, forget s')"
      "events s' = events s1 @ es" "after_call n period 1 e es r"
    by blast
  from False call run first rest show ?thesis
    by (simp add: retry_def retry_contract_def)
qed

theorem retry_meets_contract_witness:
  "(case retry (observed_ctx never_done) 3 50 (observed_fn (failing_first 2)) (observe (start 0)) of
      (r, s') \<Rightarrow>
        r = None
        \<and> events s' = [Called (Some (OtherError ''not yet'')), Waited 50 False,
                        Called (Some (OtherError ''not yet'')), Waited 50 False, Called None]
        \<and> retry never_done 3 50 (failing_first 2) (start 0) = (r, forget s')
        \<and> retry_contract 3 50 (events s') r)
   \<and> (case retry (observed_ctx never_done) 2 50 (observed_fn (failing_first 5)) (observe (start 0)) of
      (r, s') \<Rightarrow>
        r = Some (OtherError ''not yet'')
        \<and> events s' = [Called (Some (OtherError ''not yet'')), Waited 50 False,
                        Called (Some (OtherError ''not yet''))]
        \<and> retry_contract 2 50 (events s') r)
   \<and> (case retry (observed_ctx (done_from 2)) 5 50 (observed_fn (failing_first 5)) (observe (start 0)) of
      (r, s') \<Rightarrow>
        r = Some (OtherError ''not yet'')
        \<and> events s' = [Called (Some (OtherError ''not yet'')), Waited 50 False,
                        Called (Some (OtherError ''not yet'')), Waited 50 True]
        \<and> retry_contract 5 50 (events s') r)
   \<and> (case retry (observed_ctx never_done) 0 50 (observed_fn (failing_first 5)) (observe (start 0)) of
      (r, s') \<Rightarrow> r = None \<and> events s' = [] \<and> retry_contract 0 50 (events s') r)"
  using
    retry_meets_contract [of never_done 3 50 "failing_first 2" "start 0"]
    retry_meets_contract [of never_done 2 50 "failing_first 5" "start 0"]
    retry_meets_contract [of "done_from 2" 5 50 "failing_first 5" "start 0"]
    retry_meets_contract [of never_done 0 50 "failing_first 5" "start 0"]
  by (simp add: retry_def retry_loop.simps observed_fn_def observed_ctx_def never_done_def
        done_from_def failing_first_def observe_def start_def events_def forget_def logf_def
        select_Done_def Let_def retry_contract_def)

section \<open>State lemmas\<close>

lemma world_logf [simp]: "world (logf l e f a s) = world s"
  by (simp add: logf_def)

lemma calls_logf [simp]: "calls (logf l e f a s) = calls s"
  by (simp add: logf_def)

lemma remote_eq:
  "f (world s) = (r, w) \<Longrightarrow> remote c f s = (r, s\<lparr>world := w, calls := calls s @ [c]\<rparr>)"
  by (simp add: remote_def)

section \<open>The controller: Status\<close>

text \<open>
  C2. For a controller with a job and a client, when the fetch of the job succeeds: with no
  completions in the fetched job's spec, \<^verbatim>\<open>Status\<close> returns nil exactly when succeeded is
  positive and active is zero; with completions \<open>n\<close>, exactly when succeeded is at least \<open>n\<close>;
  and whenever it does not return nil it returns a CompareFailed error whose message is
  formatted from the succeeded and the active count.
\<close>

theorem Status_completion:
  assumes "Clientset (JobConfig c) = Some client" and "Job (JobConfig c) = Some cjob"
    and "Jobs_Get client (Namespace (JobMeta cjob)) (Name (JobMeta cjob)) (world s) = ((job, None), w)"
  shows "(Completions (Spec job) = None \<longrightarrow>
            (fst (Status c s) = Return None \<longleftrightarrow> 0 < Succeeded (Status_of job) \<and> Active (Status_of job) = 0))
       \<and> (\<forall>n. Completions (Spec job) = Some n \<longrightarrow>
            (fst (Status c s) = Return None \<longleftrightarrow> n \<le> Succeeded (Status_of job)))
       \<and> (fst (Status c s) \<noteq> Return None \<longrightarrow>
            is_CompareFailed_with [VInt (Succeeded (Status_of job)), VInt (Active (Status_of job))]
              (fst (Status c s)))"
  using assms
  by (auto simp: Status_def jobs_Get_def remote_eq Let_def split: option.splits)

text \<open>The four runs of the specification's section 8, on the cluster.\<close>

theorem Status_completion_witness:
  "fst (Status (control_of (pi None 1 0)) (running [pi None 1 0] [])) = Return None
   \<and> is_CompareFailed_with [VInt 0, VInt 1]
        (fst (Status (control_of (pi None 0 1)) (running [pi None 0 1] [])))
   \<and> fst (Status (control_of (pi (Some 3) 3 0)) (running [pi (Some 3) 3 0] [])) = Return None
   \<and> is_CompareFailed_with [VInt 2, VInt 0]
        (fst (Status (control_of (pi (Some 3) 2 0)) (running [pi (Some 3) 2 0] [])))"
  using
    Status_completion [of "control_of (pi None 1 0)" cluster_client "pi None 1 0"
      "running [pi None 1 0] []" "pi None 1 0" "\<lparr>cjobs = [pi None 1 0], cpods = []\<rparr>"]
    Status_completion [of "control_of (pi None 0 1)" cluster_client "pi None 0 1"
      "running [pi None 0 1] []" "pi None 0 1" "\<lparr>cjobs = [pi None 0 1], cpods = []\<rparr>"]
    Status_completion [of "control_of (pi (Some 3) 3 0)" cluster_client "pi (Some 3) 3 0"
      "running [pi (Some 3) 3 0] []" "pi (Some 3) 3 0" "\<lparr>cjobs = [pi (Some 3) 3 0], cpods = []\<rparr>"]
    Status_completion [of "control_of (pi (Some 3) 2 0)" cluster_client "pi (Some 3) 2 0"
      "running [pi (Some 3) 2 0] []" "pi (Some 3) 2 0" "\<lparr>cjobs = [pi (Some 3) 2 0], cpods = []\<rparr>"]
  by (simp add: control_of_def cluster_client_def pi_def a_job_def meta_def names_def start_def running_def)

section \<open>The controller: construction\<close>

text \<open>
  C8, as the code has it. For a configuration with a client and a job, \<^verbatim>\<open>checkAndSetDefaults\<close>
  returns nil and \<^verbatim>\<open>NewJobControl\<close> a controller, and the job they leave is the given one
  with the kind set to the Job kind, whatever it was, and with the apiVersion set to the
  default batch version when it was empty and left as it was otherwise; nothing else of the
  configuration changes.
\<close>

theorem NewJobControl_defaults:
  assumes "Clientset cfg \<noteq> None" and "Job cfg = Some job"
  shows "checkAndSetDefaults cfg =
           (Return None,
            cfg\<lparr>Job := Some (job\<lparr>Kind := KindJob,
                                   APIVersion := (if APIVersion job = '''' then BatchAPIVersion
                                                  else APIVersion job)\<rparr>)\<rparr>)
         \<and> (\<exists>ctl. NewJobControl cfg = Return (Some ctl, None)
                \<and> JobConfig ctl =
                    cfg\<lparr>Job := Some (job\<lparr>Kind := KindJob,
                                   APIVersion := (if APIVersion job = '''' then BatchAPIVersion
                                                  else APIVersion job)\<rparr>)\<rparr>)"
  using assms by (auto simp: NewJobControl_def checkAndSetDefaults_def Let_def)

text \<open>An empty kind and apiVersion are set; an apiVersion that is present stays.\<close>

theorem NewJobControl_defaults_witness:
  "fst (checkAndSetDefaults \<lparr>Job = Some (a_job '''' ''default'' ''pi'' ''u1'' None 0 0),
                             Clientset = Some cluster_client\<rparr>) = Return None
   \<and> map_option Kind (Job (snd (checkAndSetDefaults
        \<lparr>Job = Some (a_job '''' ''default'' ''pi'' ''u1'' None 0 0), Clientset = Some cluster_client\<rparr>)))
      = Some ''Job''
   \<and> map_option APIVersion (Job (snd (checkAndSetDefaults
        \<lparr>Job = Some (a_job '''' ''default'' ''pi'' ''u1'' None 0 0), Clientset = Some cluster_client\<rparr>)))
      = Some ''batch/v1''
   \<and> map_option APIVersion (Job (snd (checkAndSetDefaults
        \<lparr>Job = Some ((pi None 0 0)\<lparr>APIVersion := ''batch/v2alpha1''\<rparr>),
         Clientset = Some cluster_client\<rparr>)))
      = Some ''batch/v2alpha1''"
  using
    NewJobControl_defaults [of
      "\<lparr>Job = Some (a_job '''' ''default'' ''pi'' ''u1'' None 0 0), Clientset = Some cluster_client\<rparr>"
      "a_job '''' ''default'' ''pi'' ''u1'' None 0 0"]
    NewJobControl_defaults [of
      "\<lparr>Job = Some ((pi None 0 0)\<lparr>APIVersion := ''batch/v2alpha1''\<rparr>),
        Clientset = Some cluster_client\<rparr>"
      "(pi None 0 0)\<lparr>APIVersion := ''batch/v2alpha1''\<rparr>"]
  by (simp add: pi_def a_job_def KindJob_def BatchAPIVersion_def)

text \<open>
  C8, as stated, fails for the kind: a job given with the kind \<^verbatim>\<open>CronJob\<close> leaves
  \<^verbatim>\<open>checkAndSetDefaults\<close> with the kind \<^verbatim>\<open>Job\<close> (line 179 of \<^verbatim>\<open>job.go\<close> assigns it without a
  test).
\<close>

theorem kind_is_overwritten:
  "Kind (a_job ''CronJob'' ''default'' ''pi'' ''u1'' None 0 0) = ''CronJob''
   \<and> fst (checkAndSetDefaults
        \<lparr>Job = Some (a_job ''CronJob'' ''default'' ''pi'' ''u1'' None 0 0), Clientset = Some cluster_client\<rparr>)
      = Return None
   \<and> map_option Kind (Job (snd (checkAndSetDefaults
        \<lparr>Job = Some (a_job ''CronJob'' ''default'' ''pi'' ''u1'' None 0 0), Clientset = Some cluster_client\<rparr>)))
      = Some ''Job''"
  by (simp add: checkAndSetDefaults_def a_job_def KindJob_def Let_def)

text \<open>
  C9. \<^verbatim>\<open>NewJobControl\<close> checks the client only. Without a client it returns a BadParameter
  error; with a client and a nil job it panics (\<^verbatim>\<open>checkAndSetDefaults\<close> dereferences the job),
  so no error is returned; with a client and a job it returns a controller.
\<close>

theorem NewJobControl_validates:
  "(Clientset cfg = None \<longrightarrow>
      (\<exists>e. NewJobControl cfg = Return (None, Some e) \<and> is_BadParameter (Some e)))
   \<and> (Clientset cfg \<noteq> None \<and> Job cfg = None \<longrightarrow>
        NewJobControl cfg = Panic \<and> fst (checkAndSetDefaults cfg) = Panic)
   \<and> (Clientset cfg \<noteq> None \<and> Job cfg \<noteq> None \<longrightarrow>
        (\<exists>ctl. NewJobControl cfg = Return (Some ctl, None)))"
  by (auto simp: NewJobControl_def checkAndSetDefaults_def Let_def Wrap_def)

text \<open>A nil job with a client, a nil job without one, and a job with a client.\<close>

theorem NewJobControl_validates_witness:
  "NewJobControl \<lparr>Job = None, Clientset = Some cluster_client\<rparr> = Panic
   \<and> fst (checkAndSetDefaults \<lparr>Job = None, Clientset = Some cluster_client\<rparr>) = Panic
   \<and> (\<exists>e. NewJobControl \<lparr>Job = None, Clientset = (None :: cluster Clientset option)\<rparr> = Return (None, Some e)
          \<and> is_BadParameter (Some e))
   \<and> (\<exists>ctl. NewJobControl \<lparr>Job = Some (pi None 0 0), Clientset = Some cluster_client\<rparr>
             = Return (Some ctl, None))"
  using
    NewJobControl_validates [of "\<lparr>Job = None, Clientset = Some cluster_client\<rparr>"]
    NewJobControl_validates [of "\<lparr>Job = None, Clientset = (None :: cluster Clientset option)\<rparr>"]
    NewJobControl_validates [of "\<lparr>Job = Some (pi None 0 0), Clientset = Some cluster_client\<rparr>"]
  by simp


section \<open>The pod collector\<close>

lemma by_node_Cons: "by_node acc (pod # pods) = by_node (AList.update (NodeName pod) pod acc) pods"
  by (simp add: by_node_def)

lemma by_node_Nil: "by_node acc [] = acc"
  by (simp add: by_node_def)

lemma collect_loop_pods:
  "fst (collect_loop d entry fn items acc s) = by_node acc (filter (owned d fn) items)"
proof (induction items arbitrary: acc s)
  case Nil
  then show ?case by (simp add: by_node_Nil)
next
  case (Cons pod items)
  then show ?case
    by (cases "ParseSerializedReference d (the (map_of (Annotations (PodMeta pod)) AnnotationCreatedBy))")
       (auto simp: owned_def by_node_Cons Let_def split: option.splits)
qed

lemma collect_loop_world:
  "world (snd (collect_loop d entry fn items acc s)) = world s
   \<and> calls (snd (collect_loop d entry fn items acc s)) = calls s"
proof (induction items arbitrary: acc s)
  case Nil
  then show ?case by simp
next
  case (Cons pod items)
  then show ?case
    by (auto simp: Let_def split: option.splits prod.splits)
qed

lemma filter_warning_logf:
  "filter is_warning (logs (logf lvl e f a s)) =
   filter is_warning (logs s) @ (if lvl = WarningLevel then [LogLine lvl e f a] else [])"
  by (simp add: logf_def)

lemma collect_loop_warnings:
  "length (filter is_warning (logs (snd (collect_loop d entry fn items acc s)))) =
   length (filter is_warning (logs s)) + length (filter (malformed d) items)"
proof (induction items arbitrary: acc s)
  case Nil
  then show ?case by simp
next
  case (Cons pod items)
  then show ?case
    by (auto simp: Let_def malformed_def filter_warning_logf split: option.splits prod.splits)
qed

lemma map_of_by_node:
  "map_of (by_node acc pods) node =
     (case filter (\<lambda>p. NodeName p = node) pods of [] \<Rightarrow> map_of acc node | ps \<Rightarrow> Some (last ps))"
proof (induction pods arbitrary: acc)
  case Nil
  then show ?case by (simp add: by_node_Nil)
next
  case (Cons pod pods)
  then show ?case
    by (auto simp: by_node_Cons update_conv' split: list.splits)
qed

lemma distinct_by_node: "distinct (map fst acc) \<Longrightarrow> distinct (map fst (by_node acc pods))"
  by (induction pods arbitrary: acc) (simp_all add: by_node_Nil by_node_Cons distinct_update)

lemma keys_by_node:
  "\<forall>(node, pod) \<in> set acc. node = NodeName pod \<Longrightarrow>
   \<forall>(node, pod) \<in> set (by_node acc pods). node = NodeName pod"
proof (induction pods arbitrary: acc)
  case Nil
  then show ?case by (simp add: by_node_Nil)
next
  case (Cons pod pods)
  have "\<forall>(node, p) \<in> set (AList.update (NodeName pod) pod acc). node = NodeName p"
    using Cons.prems by (induction acc) (auto split: if_splits)
  then show ?case
    using Cons.IH by (simp add: by_node_Cons)
qed


lemma filter_same_key:
  "distinct (map f xs) \<Longrightarrow> x \<in> set xs \<Longrightarrow> filter (\<lambda>y. f y = f x) xs = [x]"
proof (induction xs)
  case Nil
  then show ?case by simp
next
  case (Cons a xs)
  show ?case
  proof (cases "a = x")
    case True
    have "filter (\<lambda>y. f y = f x) xs = []"
      using Cons.prems(1) True by (auto simp: filter_empty_conv) (metis imageI)
    with True show ?thesis by simp
  next
    case False
    with Cons.prems have "x \<in> set xs" "f a \<noteq> f x" by auto
    with Cons show ?thesis by simp
  qed
qed

lemma range_by_node:
  assumes "distinct (map NodeName pods)"
  shows "snd ` set (by_node [] pods) = set pods"
proof -
  have d: "distinct (map fst (by_node [] pods))"
    by (rule distinct_by_node) simp
  have m: "\<And>node pod. ((node, pod) \<in> set (by_node [] pods)) = (map_of (by_node [] pods) node = Some pod)"
    using d by simp
  show ?thesis
  proof (intro set_eqI iffI)
    fix pod assume "pod \<in> snd ` set (by_node [] pods)"
    then obtain node where "(node, pod) \<in> set (by_node [] pods)" by auto
    then have "map_of (by_node [] pods) node = Some pod" by (simp add: m)
    then obtain ps where ps: "filter (\<lambda>p. NodeName p = node) pods = ps" "ps \<noteq> []" "pod = last ps"
      by (auto simp: map_of_by_node split: list.splits)
    then have "last ps \<in> set ps" by simp
    with ps show "pod \<in> set pods"
      by (metis filter_is_subset subsetD)
  next
    fix pod assume "pod \<in> set pods"
    then have "filter (\<lambda>p. NodeName p = NodeName pod) pods = [pod]"
      using assms by (rule filter_same_key [rotated])
    then have "map_of (by_node [] pods) (NodeName pod) = Some pod"
      by (simp add: map_of_by_node)
    then have "(NodeName pod, pod) \<in> set (by_node [] pods)" by (simp add: m)
    then show "pod \<in> snd ` set (by_node [] pods)" by force
  qed
qed

lemma CollectPods_listed:
  assumes "Pods_List client ns \<lparr>LabelSelector_of =
             AsSelector (foldl (\<lambda>lset (key, val). AList.update key val lset) [] matchLabels)\<rparr> (world s)
           = ((items, None), w)"
  shows "fst (CollectPods d ns matchLabels entry client fn s) = (by_node [] (filter (owned d fn) items), None)"
    and "world (snd (CollectPods d ns matchLabels entry client fn s)) = w"
    and "calls (snd (CollectPods d ns matchLabels entry client fn s)) =
           calls s @ [CallPodsList ns \<lparr>LabelSelector_of =
             AsSelector (foldl (\<lambda>lset (key, val). AList.update key val lset) [] matchLabels)\<rparr>]"
    and "length (filter is_warning (logs (snd (CollectPods d ns matchLabels entry client fn s)))) =
           length (filter is_warning (logs s)) + length (filter (malformed d) items)"
proof -
  let ?opts = "\<lparr>LabelSelector_of =
             AsSelector (foldl (\<lambda>lset (key, val). AList.update key val lset) [] matchLabels)\<rparr>"
  let ?s1 = "s\<lparr>world := w, calls := calls s @ [CallPodsList ns ?opts]\<rparr>"
  have run: "CollectPods d ns matchLabels entry client fn s =
               ((fst (collect_loop d entry fn items [] ?s1), None), snd (collect_loop d entry fn items [] ?s1))"
    using assms by (simp add: CollectPods_def pods_List_def remote_eq Let_def split: prod.splits)
  show "fst (CollectPods d ns matchLabels entry client fn s) = (by_node [] (filter (owned d fn) items), None)"
    by (simp add: run collect_loop_pods)
  show "world (snd (CollectPods d ns matchLabels entry client fn s)) = w"
    by (simp add: run collect_loop_world)
  show "calls (snd (CollectPods d ns matchLabels entry client fn s)) = calls s @ [CallPodsList ns ?opts]"
    by (simp add: run collect_loop_world)
  show "length (filter is_warning (logs (snd (CollectPods d ns matchLabels entry client fn s)))) =
           length (filter is_warning (logs s)) + length (filter (malformed d) items)"
    by (simp add: run collect_loop_warnings)
qed

text \<open>
  C7, as the code has it. When the list call succeeds, \<^verbatim>\<open>CollectPods\<close> returns no error and a
  mapping with one entry for each node name: the last listed pod, among the owned pods of
  that node (those that carry the provenance annotation, whose annotation decodes, and
  whose reference satisfies the predicate). When no two owned pods share a node name, the
  pods of the mapping are exactly the owned pods. A pod without the annotation is passed
  over; a pod whose annotation fails to decode adds one warning to the log and is passed
  over, and the pods after it are still collected.
\<close>

theorem CollectPods_by_node:
  assumes "Pods_List client ns \<lparr>LabelSelector_of =
             AsSelector (foldl (\<lambda>lset (key, val). AList.update key val lset) [] matchLabels)\<rparr> (world s)
           = ((items, None), w)"
  shows "snd (fst (CollectPods d ns matchLabels entry client fn s)) = None
       \<and> (\<forall>node. map_of (fst (fst (CollectPods d ns matchLabels entry client fn s))) node =
             (case filter (\<lambda>p. NodeName p = node) (filter (owned d fn) items) of
                [] \<Rightarrow> None
              | ps \<Rightarrow> Some (last ps)))
       \<and> distinct (map fst (fst (fst (CollectPods d ns matchLabels entry client fn s))))
       \<and> (distinct (map NodeName (filter (owned d fn) items)) \<longrightarrow>
            snd ` set (fst (fst (CollectPods d ns matchLabels entry client fn s)))
              = set (filter (owned d fn) items))
       \<and> length (filter is_warning (logs (snd (CollectPods d ns matchLabels entry client fn s)))) =
           length (filter is_warning (logs s)) + length (filter (malformed d) items)"
  using CollectPods_listed [OF assms, of d entry fn]
  by (auto simp: map_of_by_node distinct_by_node range_by_node split: list.splits)


lemmas cluster_defs =
  cluster_client_def running_def start_def pi_def pi_pod_def a_job_def a_pod_def meta_def names_def
  created_by_def some_deps_def decode_ref_def AnnotationCreatedBy_def KindJob_def owner_is_def

text \<open>
  Four pods: one owned by the job, one owned by another object, one without annotation,
  one with an annotation that does not decode.
\<close>

theorem CollectPods_by_node_witness:
  "fst (CollectPods some_deps ''default'' [] [] cluster_client (owner_is (pi None 0 0))
         (running [] [pi_pod ''pi-1'' ''node-1'',
                      a_pod ''default'' ''web-1'' ''node-2'' (created_by ''ReplicaSet/u9''),
                      a_pod ''default'' ''old'' ''node-3'' [],
                      a_pod ''default'' ''bad'' ''node-4'' (created_by ''garbage'')]))
     = ([(''node-1'', pi_pod ''pi-1'' ''node-1'')], None)
   \<and> length (filter is_warning (logs (snd
         (CollectPods some_deps ''default'' [] [] cluster_client (owner_is (pi None 0 0))
           (running [] [pi_pod ''pi-1'' ''node-1'',
                      a_pod ''default'' ''web-1'' ''node-2'' (created_by ''ReplicaSet/u9''),
                      a_pod ''default'' ''old'' ''node-3'' [],
                      a_pod ''default'' ''bad'' ''node-4'' (created_by ''garbage'')]))))) = 1"
  using CollectPods_by_node [where client = cluster_client and ns = "''default''" and matchLabels = "[]"
      and s = "running [] [pi_pod ''pi-1'' ''node-1'',
                      a_pod ''default'' ''web-1'' ''node-2'' (created_by ''ReplicaSet/u9''),
                      a_pod ''default'' ''old'' ''node-3'' [],
                      a_pod ''default'' ''bad'' ''node-4'' (created_by ''garbage'')]"
      and items = "[pi_pod ''pi-1'' ''node-1'',
                      a_pod ''default'' ''web-1'' ''node-2'' (created_by ''ReplicaSet/u9''),
                      a_pod ''default'' ''old'' ''node-3'' [],
                      a_pod ''default'' ''bad'' ''node-4'' (created_by ''garbage'')]"
      and w = "\<lparr>cjobs = [], cpods = [pi_pod ''pi-1'' ''node-1'',
                      a_pod ''default'' ''web-1'' ''node-2'' (created_by ''ReplicaSet/u9''),
                      a_pod ''default'' ''old'' ''node-3'' [],
                      a_pod ''default'' ''bad'' ''node-4'' (created_by ''garbage'')]\<rparr>"
      and d = some_deps and fn = "owner_is (pi None 0 0)" and entry = "[]"]
  by (simp add: cluster_defs CollectPods_def pods_List_def remote_def AsSelector_def Matches_def
        Let_def logf_def logrus_def owned_def malformed_def formatMeta_def)

text \<open>
  C7, as stated, fails when two owned pods share a node: both are listed and owned, and the
  mapping holds the second only.
\<close>

theorem second_pod_of_a_node_replaces_the_first:
  "owned some_deps (owner_is (pi None 0 0)) (pi_pod ''pi-1'' ''node-1'')
   \<and> owned some_deps (owner_is (pi None 0 0)) (pi_pod ''pi-2'' ''node-1'')
   \<and> Pods_List cluster_client ''default'' \<lparr>LabelSelector_of = []\<rparr>
         \<lparr>cjobs = [], cpods = [pi_pod ''pi-1'' ''node-1'', pi_pod ''pi-2'' ''node-1'']\<rparr>
       = (([pi_pod ''pi-1'' ''node-1'', pi_pod ''pi-2'' ''node-1''], None),
          \<lparr>cjobs = [], cpods = [pi_pod ''pi-1'' ''node-1'', pi_pod ''pi-2'' ''node-1'']\<rparr>)
   \<and> fst (CollectPods some_deps ''default'' [] [] cluster_client (owner_is (pi None 0 0))
         (running [] [pi_pod ''pi-1'' ''node-1'', pi_pod ''pi-2'' ''node-1'']))
       = ([(''node-1'', pi_pod ''pi-2'' ''node-1'')], None)
   \<and> pi_pod ''pi-1'' ''node-1'' \<noteq> pi_pod ''pi-2'' ''node-1''"
  by (simp add: cluster_defs CollectPods_def pods_List_def remote_def AsSelector_def Matches_def
        Let_def logf_def logrus_def owned_def formatMeta_def)


lemma ConvertError_None [simp]: "ConvertError None = None"
  by (simp add: ConvertError_def ConvertErrorWithContext_def)

lemma CollectPods_calls:
  "calls (snd (CollectPods d ns matchLabels entry client fn s)) =
     calls s @ [CallPodsList ns \<lparr>LabelSelector_of =
        AsSelector (foldl (\<lambda>lset (key, val). AList.update key val lset) [] matchLabels)\<rparr>]"
proof -
  let ?opts = "\<lparr>LabelSelector_of =
        AsSelector (foldl (\<lambda>lset (key, val). AList.update key val lset) [] matchLabels)\<rparr>"
  obtain items err w where l: "Pods_List client ns ?opts (world s) = ((items, err), w)"
    by (metis prod.exhaust)
  show ?thesis
  proof (cases err)
    case None
    with l show ?thesis by (simp add: CollectPods_listed(3))
  next
    case (Some e)
    with l show ?thesis by (simp add: CollectPods_def pods_List_def remote_eq)
  qed
qed

text \<open>
  C10. For a job without selector, \<^verbatim>\<open>collectPods\<close> issues one list call, in the job's
  namespace and with the empty selector; the empty selector matches every set of labels;
  the pods collected are the owned ones among all that the call lists, keyed by node; and
  on the cluster the call with the empty selector lists every pod of the namespace.
\<close>

theorem collectPods_nil_selector:
  assumes "Selector (Spec job) = None" and "Clientset (JobConfig c) = Some client"
  shows "calls (snd (collectPods d c job s)) =
           calls s @ [CallPodsList (Namespace (JobMeta job)) \<lparr>LabelSelector_of = []\<rparr>]
       \<and> (\<forall>ls. Matches [] ls)
       \<and> (\<forall>items w.
             Pods_List client (Namespace (JobMeta job)) \<lparr>LabelSelector_of = []\<rparr> (world s) = ((items, None), w)
             \<longrightarrow> fst (collectPods d c job s)
                   = Return (by_node [] (filter (owned d (owner_is job)) items), None))
       \<and> (\<forall>ns cl. Pods_List cluster_client ns \<lparr>LabelSelector_of = []\<rparr> cl
                    = ((filter (\<lambda>p. Namespace (PodMeta p) = ns) (cpods cl), None), cl))"
proof -
  let ?R = "CollectPods d (Namespace (JobMeta job)) [] (Entry c) client (owner_is job) s"
  have fn: "(\<lambda>ref. refKind ref = KindJob \<and> refUID ref = UID (JobMeta job)) = owner_is job"
    by (simp add: owner_is_def fun_eq_iff)
  have run: "collectPods d c job s = (Return (fst (fst ?R), ConvertError (snd (fst ?R))), snd ?R)"
    using assms by (simp add: collectPods_def fn Let_def case_prod_unfold)
  have c1: "calls (snd (collectPods d c job s)) =
           calls s @ [CallPodsList (Namespace (JobMeta job)) \<lparr>LabelSelector_of = []\<rparr>]"
    using CollectPods_calls [of d "Namespace (JobMeta job)" "[]" "Entry c" client "owner_is job" s]
    by (simp add: run AsSelector_def)
  have c2: "\<forall>ls. Matches [] ls"
    by (simp add: Matches_def)
  have c3: "fst (collectPods d c job s) = Return (by_node [] (filter (owned d (owner_is job)) items), None)"
    if "Pods_List client (Namespace (JobMeta job)) \<lparr>LabelSelector_of = []\<rparr> (world s) = ((items, None), w)"
    for items w
    using CollectPods_listed(1) [of client "Namespace (JobMeta job)" "[]" s items w d "Entry c" "owner_is job"] that
    by (simp add: run AsSelector_def)
  have c4: "\<forall>ns cl. Pods_List cluster_client ns \<lparr>LabelSelector_of = []\<rparr> cl
                    = ((filter (\<lambda>p. Namespace (PodMeta p) = ns) (cpods cl), None), cl)"
    by (simp add: cluster_client_def Matches_def)
  from c1 c2 c3 c4 show ?thesis by blast
qed

text \<open>A job without selector on a cluster with pods in two namespaces.\<close>

theorem collectPods_nil_selector_witness:
  "calls (snd (collectPods some_deps (control_of (pi None 0 0)) (pi None 0 0)
       (running [pi None 0 0]
          [pi_pod ''pi-1'' ''node-1'',
           a_pod ''kube-system'' ''pi-9'' ''node-5'' (created_by ''Job/u1''),
           a_pod ''default'' ''web-1'' ''node-2'' (created_by ''ReplicaSet/u9'')])))
     = [CallPodsList ''default'' \<lparr>LabelSelector_of = []\<rparr>]
   \<and> fst (collectPods some_deps (control_of (pi None 0 0)) (pi None 0 0)
       (running [pi None 0 0]
          [pi_pod ''pi-1'' ''node-1'',
           a_pod ''kube-system'' ''pi-9'' ''node-5'' (created_by ''Job/u1''),
           a_pod ''default'' ''web-1'' ''node-2'' (created_by ''ReplicaSet/u9'')]))
     = Return ([(''node-1'', pi_pod ''pi-1'' ''node-1'')], None)"
  using collectPods_nil_selector [where job = "pi None 0 0" and c = "control_of (pi None 0 0)"
      and client = cluster_client and d = some_deps
      and s = "running [pi None 0 0]
          [pi_pod ''pi-1'' ''node-1'',
           a_pod ''kube-system'' ''pi-9'' ''node-5'' (created_by ''Job/u1''),
           a_pod ''default'' ''web-1'' ''node-2'' (created_by ''ReplicaSet/u9'')]"]
  by (simp add: cluster_defs control_of_def by_node_def owned_def)


section \<open>The controller: Delete\<close>


lemma remote_world: "world (snd (remote c f s)) = snd (f (world s))"
  by (simp add: remote_def split: prod.splits)




lemma agree_refl [simp]: "agree s s"
  by (simp add: agree_def)

lemma agree_logf_left [simp]: "agree (logf l e f a s) t = agree s t"
  by (simp add: agree_def)

lemma agree_logf_right [simp]: "agree s (logf l e f a t) = agree s t"
  by (simp add: agree_def)















section \<open>The controller: Upsert\<close>


lemma clear_identity_labels:
  "Selector (Spec job) = Some selector \<Longrightarrow>
     map_option MatchLabels (Selector (Spec (clear_identity job)))
       = Some (AList.delete ControllerUIDLabel (MatchLabels selector))
     \<and> Labels (Template (Spec (clear_identity job)))
       = AList.delete ControllerUIDLabel (Labels (Template (Spec job)))
     \<and> map_of (Labels (Template (Spec (clear_identity job)))) ControllerUIDLabel = None"
  "Selector (Spec job) = None \<Longrightarrow> Spec (clear_identity job) = Spec job"
  by (simp_all add: clear_identity_def Let_def delete_conv')




lemma Upsert_create_Return:
  "\<exists>err. fst (Upsert_create d c client cjob s) = Return err"
  by (simp add: Upsert_create_def Let_def case_prod_unfold)














end
